theory Spec2Isabelle
  imports Main
begin

section \<open>Python strings\<close>

text \<open>
  A Python \<open>str\<close> is modelled as a \<open>string\<close> whose characters are code points below 256
  (ASCII and Latin-1), so the middle dot U+00B7 of the oEmbed separator is the single
  character \<open>CHR 0xB7\<close>. An \<open>Optional[str]\<close> is a \<open>string option\<close>.
\<close>

definition is_space :: "char \<Rightarrow> bool" where
  \<comment> \<open>\<open>str.isspace\<close> on one code point below 256\<close>
  "is_space c =
     (let n = (of_char c :: nat)
      in (9 \<le> n \<and> n \<le> 13) \<or> (28 \<le> n \<and> n \<le> 32) \<or> n = 133 \<or> n = 160)"

definition strip_chars :: "(char \<Rightarrow> bool) \<Rightarrow> string \<Rightarrow> string" where
  \<comment> \<open>\<open>s.strip(chars)\<close>: drop the leading and the trailing characters that are in \<open>chars\<close>\<close>
  "strip_chars p s = rev (dropWhile p (rev (dropWhile p s)))"

definition strip :: "string \<Rightarrow> string" where
  \<comment> \<open>\<open>s.strip()\<close>\<close>
  "strip s = strip_chars is_space s"

definition lower_char :: "char \<Rightarrow> char" where
  "lower_char c =
     (let n = (of_char c :: nat)
      in if (65 \<le> n \<and> n \<le> 90) \<or> (192 \<le> n \<and> n \<le> 222 \<and> n \<noteq> 215)
         then char_of (n + 32) else c)"

definition lower :: "string \<Rightarrow> string" where
  \<comment> \<open>\<open>s.lower()\<close>\<close>
  "lower s = map lower_char s"

fun startswith :: "string \<Rightarrow> string \<Rightarrow> bool" where
  \<comment> \<open>\<open>s.startswith(p)\<close>, the prefix first\<close>
  "startswith [] s = True"
| "startswith (p # ps) [] = False"
| "startswith (p # ps) (c # cs) = (p = c \<and> startswith ps cs)"

definition endswith :: "string \<Rightarrow> string \<Rightarrow> bool" where
  \<comment> \<open>\<open>s.endswith(p)\<close>, the suffix first\<close>
  "endswith p s = startswith (rev p) (rev s)"

fun contains :: "string \<Rightarrow> string \<Rightarrow> bool" where
  \<comment> \<open>\<open>sub in s\<close>, the substring first\<close>
  "contains sub [] = (sub = [])"
| "contains sub (c # cs) = (startswith sub (c # cs) \<or> contains sub cs)"

fun split_from :: "string \<Rightarrow> string \<Rightarrow> string \<Rightarrow> string list" where
  \<comment> \<open>the pieces of the rest of the string, \<open>cur\<close> being the piece read so far\<close>
  "split_from sep cur [] = [cur]"
| "split_from sep cur (c # cs) =
     (if sep \<noteq> [] \<and> startswith sep (c # cs)
      then cur # split_from sep [] (drop (length sep) (c # cs))
      else split_from sep (cur @ [c]) cs)"

definition split :: "string \<Rightarrow> string \<Rightarrow> string list" where
  \<comment> \<open>\<open>s.split(sep)\<close> for a non-empty separator (the source only uses literals):
      the string first, as in Python\<close>
  "split s sep = split_from sep [] s"

fun join :: "string \<Rightarrow> string list \<Rightarrow> string" where
  \<comment> \<open>\<open>sep.join(xs)\<close>\<close>
  "join sep [] = []"
| "join sep [x] = x"
| "join sep (x # y # ys) = x @ sep @ join sep (y # ys)"

definition truthy :: "string option \<Rightarrow> bool" where
  \<comment> \<open>the truth value of an \<open>Optional[str]\<close>: neither \<open>None\<close> nor empty\<close>
  "truthy v = (case v of None \<Rightarrow> False | Some s \<Rightarrow> s \<noteq> [])"

definition py_or :: "string option \<Rightarrow> string option \<Rightarrow> string option" where
  \<comment> \<open>\<open>a or b\<close>\<close>
  "py_or a b = (if truthy a then a else b)"

definition or_default :: "string option \<Rightarrow> string \<Rightarrow> string" where
  \<comment> \<open>\<open>a or "literal"\<close>\<close>
  "or_default a d = (case a of None \<Rightarrow> d | Some s \<Rightarrow> if s \<noteq> [] then s else d)"

section \<open>The request model (\<open>DownloadRequest\<close>)\<close>

text \<open>
  The \<open>metadata\<close> object of the frontend is a dictionary; it is modelled with string
  values, as an association list with distinct keys (it is falsy when it is empty).
\<close>

record DownloadRequest =
  spotify_url :: "string option"
  song_url :: "string option"
  url :: "string option"
  trackUrl :: "string option"
  trackId :: "string option"
  use_consistent_naming :: bool
  title :: "string option"
  track_name :: "string option"
  artist :: "string option"
  artist_name :: "string option"
  album :: "string option"
  duration :: "string option"
  track_id :: "string option"
  search_query :: "string option"
  metadata :: "(string \<times> string) list option"

definition metadata_get :: "DownloadRequest \<Rightarrow> string \<Rightarrow> string option" where
  \<comment> \<open>\<open>self.metadata and self.metadata.get(key)\<close>, \<open>None\<close> standing for every falsy value
      of the left operand\<close>
  "metadata_get r k =
     (case metadata r of None \<Rightarrow> None | Some m \<Rightarrow> if m = [] then None else map_of m k)"

definition get_spotify_url :: "DownloadRequest \<Rightarrow> string option" where
  "get_spotify_url r =
     (let u = py_or (py_or (py_or (spotify_url r) (song_url r)) (url r)) (trackUrl r)
      in if \<not> truthy u \<and> truthy (trackId r)
         then Some (''https://open.spotify.com/track/'' @ the (trackId r))
         else u)"

definition get_track_name :: "DownloadRequest \<Rightarrow> string" where
  "get_track_name r =
     (if truthy (metadata_get r ''name'') then the (metadata_get r ''name'')
      else or_default (py_or (title r) (track_name r)) ''Unknown'')"

definition get_artist_name :: "DownloadRequest \<Rightarrow> string" where
  "get_artist_name r =
     (if truthy (metadata_get r ''artist'') then the (metadata_get r ''artist'')
      else or_default (py_or (artist r) (artist_name r)) ''Unknown Artist'')"

definition first_artist :: "string \<Rightarrow> string" where
  \<comment> \<open>the clean-up of the artist in \<open>get_search_query\<close>\<close>
  "first_artist a = (if a \<noteq> [] \<and> contains '','' a then strip (hd (split a '','')) else a)"

definition get_search_query :: "DownloadRequest \<Rightarrow> string" where
  "get_search_query r =
     (if truthy (metadata_get r ''searchQuery'') then the (metadata_get r ''searchQuery'')
      else if truthy (search_query r) then the (search_query r)
      else strip (get_track_name r @ '' '' @ first_artist (get_artist_name r)))"

definition default_request :: DownloadRequest where
  \<comment> \<open>the field defaults of the class: every optional field \<open>None\<close>, the flag \<open>False\<close>\<close>
  "default_request =
     \<lparr>spotify_url = None, song_url = None, url = None, trackUrl = None, trackId = None,
      use_consistent_naming = False, title = None, track_name = None, artist = None,
      artist_name = None, album = None, duration = None, track_id = None,
      search_query = None, metadata = None\<rparr>"

section \<open>Track information and the two metadata sources\<close>

record TrackInfo =
  name :: string
  artists :: "string list"
  search_query :: string
  album :: "string option"
  duration :: "string option"

text \<open>
  The replies of the two HTTP sources are the environment's. \<open>ApiFail\<close> stands for
  everything that makes \<open>extract_from_api\<close> leave its \<open>try\<close> without a record (a network
  error, a status other than 200, a body that is not the expected JSON); \<open>ApiData\<close> is a
  decoded JSON object, each key present (\<open>Some\<close>) or absent.
\<close>

record api_data =
  has_error :: bool
  d_name :: "string option"
  d_artists :: "string list option"
  d_searchQuery :: "string option"

datatype api_reply = ApiFail | ApiData api_data

datatype oembed_reply = OembedFail | OembedData "string option"

definition api_endpoint :: string where
  "api_endpoint = ''http://localhost:3000/api/spotify/track-metadata?url=''"

definition oembed_endpoint :: string where
  "oembed_endpoint = ''https://open.spotify.com/oembed?url=https://open.spotify.com/track/''"

definition dict_get :: "'a option \<Rightarrow> 'a \<Rightarrow> 'a" where
  \<comment> \<open>\<open>data.get(key, default)\<close> on a key that is present or absent\<close>
  "dict_get v d = (case v of None \<Rightarrow> d | Some x \<Rightarrow> x)"

definition track_info_of_api :: "api_data \<Rightarrow> TrackInfo option" where
  \<comment> \<open>the body of \<open>extract_from_api\<close> once the JSON is decoded. The default of the
      \<open>searchQuery\<close> lookup is computed before the lookup, so an empty \<open>artists\<close> list
      raises \<open>IndexError\<close>, which the enclosing \<open>except Exception\<close> turns into \<open>None\<close>.\<close>
  "track_info_of_api d =
     (if has_error d then None
      else case dict_get (d_artists d) [''Unknown''] of
             [] \<Rightarrow> None
           | a # _ \<Rightarrow>
               Some \<lparr>name = dict_get (d_name d) ''Unknown'',
                     artists = dict_get (d_artists d) [''Unknown Artist''],
                     search_query =
                       dict_get (d_searchQuery d) (dict_get (d_name d) ''Unknown'' @ '' '' @ a),
                     album = None, duration = None\<rparr>)"

definition sep_dot :: string where
  \<comment> \<open>the separator: a space, the middle dot U+00B7, a space\<close>
  "sep_dot = [CHR '' '', CHR 0xB7, CHR '' '']"

definition sep_quote_dash :: string where
  \<comment> \<open>the separator: a double quote, a space, a dash, a space\<close>
  "sep_quote_dash = CHR 0x22 # '' - ''"

definition split_pair :: "string \<Rightarrow> string \<Rightarrow> string \<times> string" where
  \<comment> \<open>\<open>parts = title.split(sep)\<close>, then
      \<open>parts[0], parts[1] if len(parts) > 1 else 'Unknown Artist'\<close>\<close>
  "split_pair t sep =
     (let parts = split t sep
      in (hd parts, if length parts > 1 then parts ! 1 else ''Unknown Artist''))"

definition parse_title :: "string \<Rightarrow> string \<times> string" where
  \<comment> \<open>the \<open>if title:\<close> block of \<open>extract_from_oembed\<close>, on the stripped title\<close>
  "parse_title t =
     (if t \<noteq> [] then
        (if contains sep_dot t then split_pair t sep_dot
         else if contains sep_quote_dash t then
           (strip_chars (\<lambda>c. c = CHR 0x22) (fst (split_pair t sep_quote_dash)),
            snd (split_pair t sep_quote_dash))
         else if contains '' - '' t then split_pair t '' - ''
         else if contains '' by '' t then split_pair t '' by ''
         else (t, ''Unknown Artist''))
      else (''Unknown'', ''Unknown Artist''))"

definition clean_name :: "string \<Rightarrow> string" where
  "clean_name n = (if lower n \<noteq> ''unknown'' then n else ''Unknown'')"

definition clean_artist :: "string \<Rightarrow> string" where
  "clean_artist a =
     (if lower a \<notin> set [''unknown artist'', ''unknown'', []] then a else ''Unknown Artist'')"

definition track_info_of_oembed :: "string option \<Rightarrow> TrackInfo" where
  \<comment> \<open>the body of \<open>extract_from_oembed\<close> once the JSON is decoded; the argument is the
      \<open>title\<close> key\<close>
  "track_info_of_oembed v =
     (let t = strip (dict_get v []);
          n = clean_name (fst (parse_title t));
          a = clean_artist (snd (parse_title t))
      in \<lparr>name = n, artists = [a], search_query = n @ '' '' @ a,
          album = None, duration = None\<rparr>)"

definition oembed_track_id :: "string \<Rightarrow> string option" where
  \<comment> \<open>the track identifier of a URL, \<open>None\<close> when neither form occurs in it\<close>
  "oembed_track_id u =
     (if contains ''/track/'' u then Some (hd (split (split u ''/track/'' ! 1) ''?''))
      else if contains ''spotify:track:'' u then Some (split u ''spotify:track:'' ! 1)
      else None)"

section \<open>Exceptions, the workspace and the external download capability\<close>

datatype exn =
    HTTPException nat string
  | TimeoutError
  | DownloadError string
  | ExtractorError string
  | OtherError string

fun str_of :: "exn \<Rightarrow> string" where
  \<comment> \<open>\<open>str(e)\<close>, the message the exception carries\<close>
  "str_of (HTTPException c d) = d"
| "str_of TimeoutError = []"
| "str_of (DownloadError m) = m"
| "str_of (ExtractorError m) = m"
| "str_of (OtherError m) = m"

text \<open>
  A workspace is the listing of one directory, in the order \<open>iterdir\<close> yields it. An entry
  is a regular file or not (\<open>is_file\<close>), and has its bytes.
\<close>

record entry =
  file_name :: string
  is_file :: bool
  content :: string

type_synonym workspace = "entry list"

record ydl_opts =
  format :: string
  noplaylist :: bool
  quiet :: bool
  no_warnings :: bool
  no_post_overwrites :: bool
  playlist_items :: string
  socket_timeout :: nat
  retries :: nat
  fragment_retries :: "nat option"
  player_client :: "string list"
  skip :: "string list"
  user_agent :: string
  geo_bypass :: "bool option"
  geo_bypass_country :: "string option"
  outtmpl :: string

record ydl_outcome =
  files_after :: workspace
  raised :: "exn option"
  seconds :: nat

text \<open>
  \<open>ydl\<close> is \<open>YoutubeDL(opts).download([url])\<close> run on a workspace: what the directory holds
  afterwards, the exception it raised if any, and the seconds it took.
\<close>

type_synonym ydl_fun = "ydl_opts \<Rightarrow> string \<Rightarrow> workspace \<Rightarrow> ydl_outcome"

definition default_opts :: "string \<Rightarrow> ydl_opts" where
  \<comment> \<open>\<open>self.default_opts\<close> with the output template added\<close>
  "default_opts tmpl =
     \<lparr>format = ''bestaudio[ext=m4a]/bestaudio[ext=webm]/bestaudio/best[height<=720]/best'',
      noplaylist = True, quiet = True, no_warnings = True, no_post_overwrites = True,
      playlist_items = ''1'', socket_timeout = 60, retries = 3, fragment_retries = Some 3,
      player_client = [''android_music'', ''android'', ''web''], skip = [''dash'', ''hls''],
      user_agent = ''Mozilla/5.0 (Windows NT 10.0; Win64; x64) AppleWebKit/537.36 (KHTML, like Gecko) Chrome/91.0.4472.124 Safari/537.36'',
      geo_bypass = Some True, geo_bypass_country = Some ''US'', outtmpl = tmpl\<rparr>"

definition fallback_opts :: "string \<Rightarrow> ydl_opts" where
  "fallback_opts tmpl =
     \<lparr>format = ''worst[ext=m4a]/worst[ext=webm]/worst'',
      noplaylist = True, quiet = False, no_warnings = False, no_post_overwrites = True,
      playlist_items = ''1'', socket_timeout = 120, retries = 2, fragment_retries = None,
      player_client = [''android_music'', ''android''], skip = [],
      user_agent = ''yt-dlp/2023.07.06'',
      geo_bypass = None, geo_bypass_country = None, outtmpl = tmpl\<rparr>"

subsection \<open>\<open>urllib.parse.quote\<close>\<close>

definition hex_digit :: "nat \<Rightarrow> char" where
  "hex_digit n = ''0123456789ABCDEF'' ! (n mod 16)"

definition utf8 :: "char \<Rightarrow> nat list" where
  \<comment> \<open>the UTF-8 bytes of a code point below 256\<close>
  "utf8 c = (let n = (of_char c :: nat) in if n < 128 then [n] else [192 + n div 64, 128 + n mod 64])"

definition always_safe :: "char \<Rightarrow> bool" where
  "always_safe c =
     (let n = (of_char c :: nat)
      in (65 \<le> n \<and> n \<le> 90) \<or> (97 \<le> n \<and> n \<le> 122) \<or> (48 \<le> n \<and> n \<le> 57)
         \<or> c \<in> set ''_.-~/'')"

definition quote :: "string \<Rightarrow> string" where
  \<comment> \<open>\<open>quote(s)\<close> with the default \<open>safe='/'\<close>\<close>
  "quote s =
     concat (map (\<lambda>c. if always_safe c then [c]
                       else concat (map (\<lambda>b. [CHR ''%'', hex_digit (b div 16), hex_digit b]) (utf8 c))) s)"

definition music_search_url :: "string \<Rightarrow> string" where
  "music_search_url q = ''https://music.youtube.com/search?q='' @ quote q"

subsection \<open>Finding the downloaded file\<close>

definition path_suffix :: "string \<Rightarrow> string" where
  \<comment> \<open>\<open>Path.suffix\<close>: from the last dot of the name on, unless that dot is the first or the
      last character\<close>
  "path_suffix n =
     (if CHR ''.'' \<notin> set n then []
      else let k = length (takeWhile (\<lambda>c. c \<noteq> CHR ''.'') (rev n));
               i = length n - 1 - k
           in if 0 < i \<and> i < length n - 1 then drop i n else [])"

definition get_content_type :: "string \<Rightarrow> string" where
  "get_content_type ext =
     dict_get (map_of [(''.m4a'', ''audio/mp4''), (''.webm'', ''audio/webm''),
                       (''.opus'', ''audio/opus''), (''.mp3'', ''audio/mpeg''),
                       (''.aac'', ''audio/aac''), (''.mp4'', ''audio/mp4'')] (lower ext))
              ''audio/octet-stream''"

record DownloadResult =
  success :: bool
  file_path :: "string option"
  res_file_name :: "string option"
  file_size :: "nat option"
  content_type :: "string option"
  error :: "string option"

definition path_join :: "string \<Rightarrow> string \<Rightarrow> string" where
  \<comment> \<open>\<open>str(Path(dir) / name)\<close>\<close>
  "path_join d n = d @ ''/'' @ n"

definition found_file :: "string \<Rightarrow> entry \<Rightarrow> DownloadResult" where
  \<comment> \<open>the dictionary the download returns for a file, as \<open>DownloadResult(success=True, **result)\<close>\<close>
  "found_file dir e =
     \<lparr>success = True, file_path = Some (path_join dir (file_name e)),
      res_file_name = Some (file_name e), file_size = Some (length (content e)),
      content_type = Some (get_content_type (path_suffix (file_name e))), error = None\<rparr>"

definition failed :: "string \<Rightarrow> DownloadResult" where
  \<comment> \<open>\<open>DownloadResult(success=False, error=msg)\<close>\<close>
  "failed msg =
     \<lparr>success = False, file_path = None, res_file_name = None, file_size = None,
      content_type = None, error = Some msg\<rparr>"

definition find_audio :: "string list \<Rightarrow> workspace \<Rightarrow> entry option" where
  \<comment> \<open>the first entry of the listing that is a file with one of the extensions\<close>
  "find_audio exts ws =
     List.find (\<lambda>e. is_file e \<and> lower (path_suffix (file_name e)) \<in> set exts) ws"

definition audio_extensions :: "string list" where
  "audio_extensions = [''.m4a'', ''.webm'', ''.opus'', ''.mp3'', ''.aac'', ''.mp4'']"

definition fallback_extensions :: "string list" where
  "fallback_extensions = [''.m4a'', ''.webm'', ''.opus'', ''.mp3'', ''.aac'']"

definition clear_files :: "workspace \<Rightarrow> workspace" where
  \<comment> \<open>\<open>file.unlink()\<close> on every entry that is a file\<close>
  "clear_files ws = filter (\<lambda>e. \<not> is_file e) ws"

section \<open>The download engine (\<open>YtDlpDownloader\<close>)\<close>

text \<open>
  Effects are recorded as events, in the order they happen. \<open>Download opts url ws\<close> is one
  call of the external capability, with the workspace as it is when the call starts.
\<close>

datatype event =
    Mkdtemp string
  | HttpGet string
  | Download ydl_opts string workspace
  | Rmtree string

record 'a run =
  result :: 'a
  ws :: workspace
  trace :: "event list"
  secs :: nat

definition after :: "event \<Rightarrow> nat \<Rightarrow> 'a run \<Rightarrow> 'a run" where
  \<comment> \<open>a run that follows one more call\<close>
  "after ev s r = r\<lparr>trace := ev # trace r, secs := s + secs r\<rparr>"

fun try_formats ::
  "ydl_fun \<Rightarrow> ydl_opts \<Rightarrow> string \<Rightarrow> string \<Rightarrow> string list \<Rightarrow> workspace \<Rightarrow> (exn + DownloadResult) run"
where
  \<comment> \<open>the loop \<open>for i, format_option in enumerate(format_attempts)\<close> over the formats still
      to try, and the \<open>raise\<close> after it\<close>
  "try_formats ydl opts u dir [] w =
     \<lparr>result = Inl (OtherError ''All format attempts failed - no file downloaded''),
      ws = w, trace = [], secs = 0\<rparr>"
| "try_formats ydl opts u dir (f # fs) w =
     (let current_opts = opts\<lparr>format := f\<rparr>;
          out = ydl current_opts u w;
          ev = Download current_opts u w
      in case raised out of
           None \<Rightarrow>
             (case find_audio audio_extensions (files_after out) of
                Some e \<Rightarrow>
                  \<lparr>result = Inr (found_file dir e), ws = files_after out,
                   trace = [ev], secs = seconds out\<rparr>
              | None \<Rightarrow>
                  after ev (seconds out) (try_formats ydl opts u dir fs (files_after out)))
         | Some e \<Rightarrow>
             if fs \<noteq> []
             then after ev (seconds out)
                    (try_formats ydl opts u dir fs (clear_files (files_after out)))
             else \<lparr>result = Inl e, ws = clear_files (files_after out),
                   trace = [ev], secs = seconds out\<rparr>)"

definition format_attempts :: "ydl_opts \<Rightarrow> string list" where
  "format_attempts opts = [format opts, ''bestaudio/best'', ''best'']"

definition inner_download :: "ydl_fun \<Rightarrow> string \<Rightarrow> string \<Rightarrow> workspace \<Rightarrow> (exn + DownloadResult) run" where
  \<comment> \<open>the closure \<open>_download\<close> of \<open>download_audio\<close>; its flag is the constant \<open>False\<close>\<close>
  "inner_download ydl q dir w =
     (let use_consistent_naming = False;
          output_template =
            (if use_consistent_naming then path_join dir ''temp_download.%(ext)s''
             else path_join dir ''%(title)s.%(ext)s'');
          ydl_opts = default_opts output_template
      in try_formats ydl ydl_opts (music_search_url q) dir (format_attempts ydl_opts) w)"

definition fallback_download :: "ydl_fun \<Rightarrow> string \<Rightarrow> string \<Rightarrow> workspace \<Rightarrow> (exn + DownloadResult) run" where
  \<comment> \<open>\<open>_fallback_download\<close>: one call with the minimal options, bounded by 180 seconds;
      it returns a successful result or raises\<close>
  "fallback_download ydl q dir w =
     (let opts = fallback_opts (path_join dir ''%(title)s.%(ext)s'');
          out = ydl opts (music_search_url q) w;
          r = (case raised out of
                 Some e \<Rightarrow> Inl e
               | None \<Rightarrow>
                   (case find_audio fallback_extensions (files_after out) of
                      Some e \<Rightarrow> Inr (found_file dir e)
                    | None \<Rightarrow> Inl (OtherError ''Fallback download: file not found'')))
      in \<lparr>result = (if seconds out > 180 then Inl TimeoutError else r),
          ws = files_after out,
          trace = [Download opts (music_search_url q) w],
          secs = seconds out\<rparr>)"

definition is_forbidden :: "string \<Rightarrow> bool" where
  \<comment> \<open>\<open>"403" in str(e) or "Forbidden" in str(e)\<close>\<close>
  "is_forbidden m = (contains ''403'' m \<or> contains ''Forbidden'' m)"

definition give_up :: "'a run \<Rightarrow> string \<Rightarrow> DownloadResult run" where
  \<comment> \<open>\<open>return DownloadResult(success=False, error=error_msg)\<close> at the end of a run\<close>
  "give_up r msg = \<lparr>result = failed msg, ws = ws r, trace = trace r, secs = secs r\<rparr>"

definition download_audio :: "ydl_fun \<Rightarrow> string \<Rightarrow> string \<Rightarrow> workspace \<Rightarrow> DownloadResult run" where
  \<comment> \<open>\<open>asyncio.wait_for(..., timeout=120.0)\<close> raises \<open>TimeoutError\<close> when the inner download
      takes more than 120 seconds; the \<open>except\<close> clauses follow in the source's order\<close>
  "download_audio ydl q dir w =
     (let r = inner_download ydl q dir w
      in case (if secs r > 120 then Inl TimeoutError else result r) of
           Inr res \<Rightarrow> \<lparr>result = res, ws = ws r, trace = trace r, secs = secs r\<rparr>
         | Inl TimeoutError \<Rightarrow> give_up r ''Download timed out after 120 seconds''
         | Inl (DownloadError m) \<Rightarrow>
             (if is_forbidden m then
                (let fb = fallback_download ydl q dir (ws r)
                 in case result fb of
                      Inr res \<Rightarrow>
                        \<lparr>result = res, ws = ws fb, trace = trace r @ trace fb,
                         secs = secs r + secs fb\<rparr>
                    | Inl fallback_error \<Rightarrow>
                        \<lparr>result = failed (''yt-dlp download error: '' @ m), ws = ws fb,
                         trace = trace r @ trace fb, secs = secs r + secs fb\<rparr>)
              else give_up r (''yt-dlp download error: '' @ m))
         | Inl (ExtractorError m) \<Rightarrow> give_up r (''yt-dlp extractor error: '' @ m)
         | Inl e \<Rightarrow> give_up r (''Unexpected download error: '' @ str_of e))"

section \<open>The endpoint (\<open>download_song_frontend\<close>)\<close>

fun str_nat :: "nat \<Rightarrow> string" where
  \<comment> \<open>\<open>str(n)\<close> of a natural number\<close>
  "str_nat n =
     (if n < 10 then [''0123456789'' ! n] else str_nat (n div 10) @ [''0123456789'' ! (n mod 10)])"

declare str_nat.simps [simp del]

fun chunks :: "nat \<Rightarrow> string \<Rightarrow> string list" where
  \<comment> \<open>\<open>iter_file_content\<close>: the slices \<open>[i : i + chunk_size]\<close> for \<open>i\<close> in steps of the size\<close>
  "chunks n xs = (if n = 0 \<or> xs = [] then [] else take n xs # chunks n (drop n xs))"

declare chunks.simps [simp del]

record response =
  media_type :: "string option"
  headers :: "(string \<times> string) list"
  body :: "string list"

text \<open>
  The environment of one request: the request identifier and the formatted elapsed time
  (both read from the clock), \<open>tempfile.mkdtemp\<close>, the two metadata sources, the download
  capability, and the exception \<open>read_bytes\<close> raises, if any. The world maps the path of
  each existing directory to its listing.
\<close>

record env =
  request_id :: string
  download_time :: string
  mkdtemp :: "string \<Rightarrow> string \<Rightarrow> exn + string"
  api_get :: "string \<Rightarrow> api_reply"
  oembed_get :: "string \<Rightarrow> oembed_reply"
  ydl :: ydl_fun
  read_fault :: "exn option"

type_synonym world = "string \<rightharpoonup> workspace"

definition has_metadata :: "DownloadRequest \<Rightarrow> bool" where
  "has_metadata r = (get_track_name r \<noteq> ''Unknown'' \<and> get_artist_name r \<noteq> ''Unknown Artist'')"

definition extract_from_api :: "env \<Rightarrow> string \<Rightarrow> TrackInfo option \<times> event list" where
  "extract_from_api e u =
     (let api_url = api_endpoint @ quote u
      in (case api_get e api_url of ApiFail \<Rightarrow> None | ApiData d \<Rightarrow> track_info_of_api d,
          [HttpGet api_url]))"

definition extract_from_oembed :: "env \<Rightarrow> string \<Rightarrow> TrackInfo option \<times> event list" where
  "extract_from_oembed e u =
     (case oembed_track_id u of
        None \<Rightarrow> (None, [])
      | Some tid \<Rightarrow>
          if tid = [] then (None, [])
          else (case oembed_get e (oembed_endpoint @ tid) of
                  OembedFail \<Rightarrow> None
                | OembedData t \<Rightarrow> Some (track_info_of_oembed t),
                [HttpGet (oembed_endpoint @ tid)]))"

definition provided_track_info :: "DownloadRequest \<Rightarrow> TrackInfo" where
  \<comment> \<open>the branch \<open>if has_metadata\<close>\<close>
  "provided_track_info r =
     \<lparr>name = get_track_name r,
      artists = (if contains '','' (get_artist_name r)
                 then map strip (split (get_artist_name r) '','')
                 else [get_artist_name r]),
      search_query = get_search_query r,
      album = DownloadRequest.album r,
      duration = DownloadRequest.duration r\<rparr>"

definition resolve :: "env \<Rightarrow> DownloadRequest \<Rightarrow> string \<Rightarrow> (exn + TrackInfo) \<times> event list" where
  \<comment> \<open>"Get track information": the caller's metadata, or the API and then oEmbed on the
      URL \<open>u\<close> (which validation has found non-empty on that branch)\<close>
  "resolve e r u =
     (if has_metadata r then (Inr (provided_track_info r), [])
      else case extract_from_api e u of
             (Some ti, t1) \<Rightarrow> (Inr ti, t1)
           | (None, t1) \<Rightarrow>
               (case extract_from_oembed e u of
                  (Some ti, t2) \<Rightarrow> (Inr ti, t1 @ t2)
                | (None, t2) \<Rightarrow>
                    (Inl (HTTPException 400 ''Could not extract track information from Spotify URL''),
                     t1 @ t2)))"

definition content_disposition :: "string \<Rightarrow> string" where
  "content_disposition n =
     (let ascii_filename =
            (if \<exists>c \<in> set n. (of_char c :: nat) > 127
             then filter (\<lambda>c. (of_char c :: nat) < 128) n else n)
      in ''attachment; filename='' @ [CHR 0x22] @ ascii_filename @ [CHR 0x22]
         @ ''; filename*=UTF-8'' @ [CHR 0x27, CHR 0x27] @ quote n)"

definition make_headers ::
  "env \<Rightarrow> TrackInfo \<Rightarrow> string \<Rightarrow> string \<Rightarrow> (string \<times> string) list" where
  \<comment> \<open>the \<open>headers\<close> dictionary, in insertion order; the arguments are the track, the file
      name and the file's bytes\<close>
  "make_headers e ti fname file_content =
     [(''Content-Disposition'', content_disposition fname),
      (''Content-Length'', str_nat (length file_content)),
      (''X-Track-Name'', name ti),
      (''X-Track-Artist'', join '', '' (artists ti)),
      (''X-Request-Id'', request_id e),
      (''X-Download-Time'', download_time e)]
     @ (if truthy (album ti) then [(''X-Track-Album'', the (album ti))] else [])
     @ (if truthy (duration ti) then [(''X-Track-Duration'', the (duration ti))] else [])"

definition read_bytes :: "string \<Rightarrow> workspace \<Rightarrow> string \<Rightarrow> string option" where
  \<comment> \<open>the bytes of the entry at a path of the directory, \<open>None\<close> when no entry has the path\<close>
  "read_bytes dir w p = map_of (map (\<lambda>e. (path_join dir (file_name e), content e)) w) p"

record outcome =
  returned :: "exn + response"
  temp_dir :: "string option"
  world_after :: world
  events :: "event list"

definition respond ::
  "env \<Rightarrow> TrackInfo \<Rightarrow> DownloadResult \<Rightarrow> string \<Rightarrow> workspace \<Rightarrow> exn + response" where
  \<comment> \<open>from \<open>if not download_result.success\<close> to the \<open>return\<close>\<close>
  "respond e ti res dir w =
     (if \<not> success res
      then Inl (HTTPException 500 (''Download failed: '' @ dict_get (error res) ''None''))
      else case read_bytes dir w (dict_get (file_path res) []) of
             None \<Rightarrow> Inl (HTTPException 404 ''Downloaded file not found'')
           | Some file_content \<Rightarrow>
               (case read_fault e of
                  Some x \<Rightarrow> Inl x
                | None \<Rightarrow>
                    Inr \<lparr>media_type = content_type res,
                         headers = make_headers e ti (dict_get (res_file_name res) []) file_content,
                         body = chunks 8192 file_content\<rparr>))"

definition try_body :: "env \<Rightarrow> DownloadRequest \<Rightarrow> world \<Rightarrow> outcome" where
  \<comment> \<open>the \<open>try\<close> block: what it returns or raises, and \<open>temp_dir\<close> as it stands then\<close>
  "try_body e r w =
     (let spotify_url = get_spotify_url r
      in if \<not> truthy spotify_url \<and> \<not> has_metadata r
         then \<lparr>returned = Inl (HTTPException 400
                  ''Either Spotify URL/Track ID or complete track metadata (title + artist) is required''),
               temp_dir = None, world_after = w, events = []\<rparr>
         else case mkdtemp e (''song_dl_'' @ request_id e @ ''_'') ''/tmp'' of
                Inl x \<Rightarrow> \<lparr>returned = Inl x, temp_dir = None, world_after = w, events = []\<rparr>
              | Inr d \<Rightarrow>
                  (case resolve e r (dict_get spotify_url []) of
                     (Inl x, t1) \<Rightarrow>
                       \<lparr>returned = Inl x, temp_dir = Some d, world_after = w(d \<mapsto> []),
                        events = Mkdtemp d # t1\<rparr>
                   | (Inr ti, t1) \<Rightarrow>
                       (let dl = download_audio (ydl e) (search_query ti) d []
                        in \<lparr>returned = respond e ti (result dl) d (ws dl),
                            temp_dir = Some d, world_after = w(d \<mapsto> ws dl),
                            events = Mkdtemp d # t1 @ trace dl\<rparr>)))"

fun handlers :: "exn + response \<Rightarrow> exn + response" where
  \<comment> \<open>the \<open>except\<close> clauses of the endpoint, in the source's order\<close>
  "handlers (Inr resp) = Inr resp"
| "handlers (Inl (HTTPException c d)) = Inl (HTTPException c d)"
| "handlers (Inl TimeoutError) = Inl (HTTPException 504 ''Download operation timed out'')"
| "handlers (Inl x) = Inl (HTTPException 500 (''Unexpected error: '' @ str_of x))"

definition download_song_frontend :: "env \<Rightarrow> DownloadRequest \<Rightarrow> world \<Rightarrow> outcome" where
  \<comment> \<open>the \<open>finally\<close> clause removes the directory when \<open>temp_dir\<close> is set and exists\<close>
  "download_song_frontend e r w =
     (let b = try_body e r w
      in case temp_dir b of
           None \<Rightarrow> b\<lparr>returned := handlers (returned b)\<rparr>
         | Some d \<Rightarrow>
             if d \<noteq> [] \<and> world_after b d \<noteq> None
             then b\<lparr>returned := handlers (returned b),
                    world_after := (world_after b)(d := None),
                    events := events b @ [Rmtree d]\<rparr>
             else b\<lparr>returned := handlers (returned b)\<rparr>)"

section \<open>The command-line downloader (\<open>download_with_ytdlp\<close>)\<close>

text \<open>
  The output folder is an association list from file names to bytes, in the order
  \<open>os.listdir\<close> yields them. The \<open>yt_dlp\<close> subprocess is the environment's: it completes
  with a return code, its standard error and the folder as it leaves it, or the 180 seconds
  expire, or starting it raises.
\<close>

type_synonym folder = "(string \<times> string) list"

datatype proc = Completed int string folder | TimeoutExpired | ProcError string

record script_result =
  ok :: bool
  saved_file :: "string option"
  saved_path :: "string option"
  err :: "string option"
  details :: "string option"

definition exists_in :: "folder \<Rightarrow> string \<Rightarrow> bool" where
  \<comment> \<open>\<open>os.path.exists\<close> of a name in the folder\<close>
  "exists_in d n = (map_of d n \<noteq> None)"

definition os_remove :: "string \<Rightarrow> folder \<Rightarrow> folder" where
  "os_remove n d = filter (\<lambda>p. fst p \<noteq> n) d"

definition os_rename :: "string \<Rightarrow> string \<Rightarrow> folder \<Rightarrow> folder" where
  \<comment> \<open>\<open>os.rename(src, dst)\<close> on an existing source: the destination is replaced\<close>
  "os_rename src dst d =
     (case map_of d src of
        None \<Rightarrow> d
      | Some c \<Rightarrow> if src = dst then d else os_remove src (os_remove dst d) @ [(dst, c)])"

definition splitext_ext :: "string \<Rightarrow> string" where
  \<comment> \<open>\<open>os.path.splitext(name)[1]\<close> for a name without a directory part: from the last dot
      on, when a character other than a dot stands before it\<close>
  "splitext_ext n =
     (if CHR ''.'' \<notin> set n then []
      else let i = length n - 1 - length (takeWhile (\<lambda>c. c \<noteq> CHR ''.'') (rev n))
           in if \<exists>c \<in> set (take i n). c \<noteq> CHR ''.'' then drop i n else [])"

definition script_extensions :: "string list" where
  "script_extensions = [''.webm'', ''.m4a'', ''.opus'', ''.mp3'', ''.aac'']"

definition rotate_ext :: "folder \<Rightarrow> string \<Rightarrow> folder" where
  \<comment> \<open>one round of the loop "Rename previous latest to previous"\<close>
  "rotate_ext d ext =
     (if exists_in d (''latest'' @ ext)
      then os_rename (''latest'' @ ext) (''previous'' @ ext)
             (if exists_in d (''previous'' @ ext) then os_remove (''previous'' @ ext) d else d)
      else d)"

definition script_cmd :: "string \<Rightarrow> string \<Rightarrow> string \<Rightarrow> string list" where
  "script_cmd executable output_template search_url =
     [executable, ''-m'', ''yt_dlp'', ''-f'', ''bestaudio[ext=m4a]/bestaudio'',
      ''--no-post-overwrites'', ''--no-warnings'', ''--no-playlist'', ''--quiet'', ''--progress'',
      ''--playlist-items'', ''1'', ''-o'', output_template, search_url]"

definition download_failed :: "string \<Rightarrow> script_result" where
  "download_failed e =
     \<lparr>ok = False, saved_file = None, saved_path = None, err = Some ''Download failed'',
      details = Some e\<rparr>"

definition download_with_ytdlp ::
  "(string list \<Rightarrow> folder \<Rightarrow> proc) \<Rightarrow> string \<Rightarrow> string \<Rightarrow> string \<Rightarrow> bool \<Rightarrow> folder
     \<Rightarrow> script_result \<times> folder" where
  \<comment> \<open>\<open>download_with_ytdlp(search_query, output_dir, use_consistent_naming)\<close> on a folder;
      \<open>run\<close> is \<open>subprocess.run\<close> and \<open>executable\<close> is \<open>sys.executable\<close>\<close>
  "download_with_ytdlp run executable q output_dir consistent_naming d0 =
     (let output_template =
            (if consistent_naming then path_join output_dir ''temp_download.%(ext)s''
             else path_join output_dir ''%(title)s.%(ext)s'')
      in case run (script_cmd executable output_template (music_search_url q)) d0 of
           TimeoutExpired \<Rightarrow>
             (\<lparr>ok = False, saved_file = None, saved_path = None,
               err = Some ''Download timed out (>180s)'', details = None\<rparr>, d0)
         | ProcError m \<Rightarrow>
             (\<lparr>ok = False, saved_file = None, saved_path = None,
               err = Some (''Download error: '' @ m), details = None\<rparr>, d0)
         | Completed returncode e d1 \<Rightarrow>
             if returncode = 0 then
               (if consistent_naming then
                  (case filter (\<lambda>f. startswith ''temp_download'' f
                                     \<and> (\<exists>ext \<in> set script_extensions. endswith ext f))
                          (map fst d1) of
                     [] \<Rightarrow> (download_failed e, d1)
                   | temp_file # _ \<Rightarrow>
                       (let file_ext = splitext_ext temp_file;
                            d2 = foldl rotate_ext d1 script_extensions;
                            d3 = os_rename temp_file (''latest'' @ file_ext) d2
                        in (\<lparr>ok = True, saved_file = Some (''latest'' @ file_ext),
                             saved_path = Some (path_join output_dir (''latest'' @ file_ext)),
                             err = None, details = None\<rparr>, d3)))
                else
                  (case filter (\<lambda>f. \<exists>ext \<in> set script_extensions. endswith ext f) (map fst d1) of
                     [] \<Rightarrow> (download_failed e, d1)
                   | files \<Rightarrow>
                       (\<lparr>ok = True, saved_file = Some (last files),
                         saved_path = Some (path_join output_dir (last files)),
                         err = None, details = None\<rparr>, d1)))
             else (download_failed e, d1))"

section \<open>Sample requests and environments\<close>

definition both_queries :: DownloadRequest where
  \<comment> \<open>a request with a title, two artists, an explicit query and a nested query\<close>
  "both_queries =
     default_request\<lparr>title := Some ''Song'', artist := Some ''A, B'',
       DownloadRequest.search_query := Some ''explicit'',
       metadata := Some [(''searchQuery'', ''nested'')]\<rparr>"

definition explicit_query :: DownloadRequest where
  "explicit_query = both_queries\<lparr>metadata := None\<rparr>"

definition no_query :: DownloadRequest where
  "no_query = explicit_query\<lparr>DownloadRequest.search_query := None\<rparr>"

definition one_artist :: DownloadRequest where
  "one_artist = default_request\<lparr>title := Some ''Song'', artist := Some ''Artist''\<rparr>"

definition quoted_title :: string where
  \<comment> \<open>the title \<open>"Track" - Singer\<close>, with its double quotes\<close>
  "quoted_title = CHR 0x22 # ''Track'' @ [CHR 0x22] @ '' - Singer''"

definition song_file :: entry where
  "song_file = \<lparr>file_name = ''Song.m4a'', is_file = True, content = ''abc''\<rparr>"

definition part_file :: entry where
  \<comment> \<open>what an interrupted download leaves behind\<close>
  "part_file = \<lparr>file_name = ''Song.m4a.part'', is_file = True, content = ''a''\<rparr>"

definition ydl_ok :: ydl_fun where
  \<comment> \<open>every call downloads the file in five seconds\<close>
  "ydl_ok opts u w = \<lparr>files_after = w @ [song_file], raised = None, seconds = 5\<rparr>"

definition ydl_slow :: ydl_fun where
  \<comment> \<open>every call downloads the file, in 130 seconds\<close>
  "ydl_slow opts u w = \<lparr>files_after = w @ [song_file], raised = None, seconds = 130\<rparr>"



definition ydl_unavailable :: ydl_fun where
  \<comment> \<open>every call fails with a download error that is not an access denial\<close>
  "ydl_unavailable opts u w =
     \<lparr>files_after = w @ [part_file],
      raised = Some (DownloadError ''ERROR: Video unavailable''), seconds = 2\<rparr>"




definition env_ok :: env where
  \<comment> \<open>an environment in which the API is down, oEmbed answers and the download works\<close>
  "env_ok =
     \<lparr>request_id = ''req_1700000000000'', download_time = ''5.02s'',
      mkdtemp = (\<lambda>prefix dir. Inr (dir @ ''/'' @ prefix @ ''k3x9'')),
      api_get = (\<lambda>u. ApiFail),
      oembed_get = (\<lambda>u. OembedData (Some quoted_title)),
      ydl = ydl_ok, read_fault = None\<rparr>"

definition url_only :: DownloadRequest where
  "url_only = default_request\<lparr>url := Some ''https://open.spotify.com/track/abc123?si=1''\<rparr>"

definition with_album :: DownloadRequest where
  "with_album = one_artist\<lparr>DownloadRequest.album := Some ''LP'',
                           DownloadRequest.duration := Some ''3:05''\<rparr>"

definition flag_set :: DownloadRequest where
  \<comment> \<open>a request that asks for consistent naming\<close>
  "flag_set = one_artist\<lparr>use_consistent_naming := True\<rparr>"

definition tmp_path :: string where
  \<comment> \<open>the directory \<open>env_ok\<close> creates\<close>
  "tmp_path = ''/tmp/song_dl_req_1700000000000_k3x9''"

definition api_track :: api_data where
  \<comment> \<open>a reply of the metadata API without a \<open>searchQuery\<close>\<close>
  "api_track =
     \<lparr>has_error = False, d_name = Some ''Track'', d_artists = Some [''Singer'', ''Guest''],
      d_searchQuery = None\<rparr>"

definition env_api :: env where
  \<comment> \<open>as \<open>env_ok\<close>, with the metadata API answering\<close>
  "env_api = env_ok\<lparr>api_get := (\<lambda>u. ApiData api_track)\<rparr>"

definition two_artists :: DownloadRequest where
  "two_artists = default_request\<lparr>track_name := Some ''Song'', artist_name := Some ''A, B''\<rparr>"

definition url_with_album :: DownloadRequest where
  \<comment> \<open>a URL and an album, but no title and no artist\<close>
  "url_with_album = url_only\<lparr>DownloadRequest.album := Some ''LP''\<rparr>"

section \<open>Facts about the string functions\<close>

lemma contains_single: "contains [c] s = (c \<in> set s)"
  by (induction s) auto

lemma hd_split_from_single:
  "hd (split_from [c] cur s) = cur @ takeWhile (\<lambda>x. x \<noteq> c) s"
  by (induction s arbitrary: cur) auto

lemma hd_split_single: "hd (split s [c]) = takeWhile (\<lambda>x. x \<noteq> c) s"
  by (simp add: split_def hd_split_from_single)

lemma split_from_not_Nil: "split_from sep cur s \<noteq> []"
  by (induction sep cur s rule: split_from.induct) auto

lemma startswith_append_drop: "startswith p s \<Longrightarrow> p @ drop (length p) s = s"
  by (induction p s rule: startswith.induct) auto

lemma join_Cons: "ys \<noteq> [] \<Longrightarrow> join sep (x # ys) = x @ sep @ join sep ys"
  by (cases ys) auto

lemma join_split_from: "join sep (split_from sep cur s) = cur @ s"
proof (induction sep cur s rule: split_from.induct)
  case (1 sep cur)
  show ?case by simp
next
  case (2 sep cur c cs)
  show ?case
  proof (cases "sep \<noteq> [] \<and> startswith sep (c # cs)")
    case True
    then have "sep @ drop (length sep) (c # cs) = c # cs"
      using startswith_append_drop by blast
    with True 2 show ?thesis
      by (simp add: join_Cons split_from_not_Nil del: startswith.simps drop_Suc_Cons)
  next
    case False
    with 2 show ?thesis by auto
  qed
qed

lemma join_split: "join sep (split s sep) = s"
  by (simp add: split_def join_split_from)

lemma length_split_from_contains:
  "sep \<noteq> [] \<Longrightarrow> contains sep s \<Longrightarrow> 2 \<le> length (split_from sep cur s)"
proof (induction sep cur s rule: split_from.induct)
  case (1 sep cur)
  then show ?case by simp
next
  case (2 sep cur c cs)
  show ?case
  proof (cases "startswith sep (c # cs)")
    case True
    have "1 \<le> length (split_from sep [] (drop (length sep) (c # cs)))"
      using split_from_not_Nil [of sep "[]" "drop (length sep) (c # cs)"]
      by (cases "split_from sep [] (drop (length sep) (c # cs))") auto
    with True 2 show ?thesis by (simp del: startswith.simps drop_Suc_Cons)
  next
    case False
    with 2 show ?thesis by auto
  qed
qed

lemma length_split_contains: "sep \<noteq> [] \<Longrightarrow> contains sep s \<Longrightarrow> 2 \<le> length (split s sep)"
  by (simp add: split_def length_split_from_contains)

lemma split_no_sep: "\<not> contains sep s \<Longrightarrow> split_from sep cur s = [cur @ s]"
  by (induction s arbitrary: cur) auto

lemma split_pair_contains:
  "sep \<noteq> [] \<Longrightarrow> contains sep t \<Longrightarrow> split_pair t sep = (split t sep ! 0, split t sep ! 1)"
  using length_split_contains [of sep t]
  by (cases "split t sep") (auto simp: split_pair_def Let_def)

lemmas request_simps =
  default_request_def metadata_get_def truthy_def py_or_def or_default_def
  get_track_name_def get_artist_name_def get_spotify_url_def

lemmas strip_simps = strip_def strip_chars_def is_space_def

section \<open>The search query\<close>

text \<open>
  C3 (as the code has it). The query of the nested metadata object, when it is not empty,
  wins over the explicit \<open>search_query\<close> field, which, when it is not empty, wins over the
  constructed form: the track name, a space and the artist, stripped of surrounding
  whitespace. In the constructed form, an artist that contains a comma contributes only
  the text before its first comma, stripped.
\<close>

theorem search_query_precedence:
  "(truthy (metadata_get r ''searchQuery'') \<longrightarrow>
      get_search_query r = the (metadata_get r ''searchQuery''))
   \<and> (\<not> truthy (metadata_get r ''searchQuery'') \<and> truthy (DownloadRequest.search_query r) \<longrightarrow>
      get_search_query r = the (DownloadRequest.search_query r))
   \<and> (\<not> truthy (metadata_get r ''searchQuery'') \<and> \<not> truthy (DownloadRequest.search_query r) \<longrightarrow>
      get_search_query r =
        strip (get_track_name r @ '' '' @
               (if CHR '','' \<in> set (get_artist_name r)
                then strip (takeWhile (\<lambda>c. c \<noteq> CHR '','') (get_artist_name r))
                else get_artist_name r)))"
  by (auto simp: get_search_query_def first_artist_def contains_single hd_split_single)

theorem search_query_precedence_witness:
  "truthy (metadata_get both_queries ''searchQuery'')
   \<and> get_search_query both_queries = ''nested''
   \<and> \<not> truthy (metadata_get explicit_query ''searchQuery'')
   \<and> truthy (DownloadRequest.search_query explicit_query)
   \<and> get_search_query explicit_query = ''explicit''
   \<and> \<not> truthy (metadata_get no_query ''searchQuery'')
   \<and> \<not> truthy (DownloadRequest.search_query no_query)
   \<and> get_search_query no_query = ''Song A''
   \<and> get_search_query one_artist = ''Song Artist''"
  using search_query_precedence [of both_queries] search_query_precedence [of explicit_query]
    search_query_precedence [of no_query] search_query_precedence [of one_artist]
  by (simp add: both_queries_def explicit_query_def no_query_def one_artist_def
      request_simps strip_simps)

text \<open>
  C3 as the specification words it fails: on a request that carries both queries, the
  explicit one does not win.
\<close>

theorem explicit_query_loses:
  "truthy (DownloadRequest.search_query both_queries)
   \<and> get_search_query both_queries \<noteq> the (DownloadRequest.search_query both_queries)
   \<and> get_search_query both_queries = ''nested''"
  by (simp add: get_search_query_def both_queries_def request_simps)

section \<open>The oEmbed title parser\<close>

lemma sep_nonempty [simp]: "sep_dot \<noteq> []" "sep_quote_dash \<noteq> []"
  by (simp_all add: sep_dot_def sep_quote_dash_def)

lemma quoted_title_facts:
  "strip (dict_get (Some quoted_title) []) = quoted_title"
  "\<not> contains sep_dot quoted_title"
  "contains sep_quote_dash quoted_title"
  "split quoted_title sep_quote_dash = [CHR 0x22 # ''Track'', ''Singer'']"
  "strip_chars (\<lambda>c. c = CHR 0x22) (CHR 0x22 # ''Track'') = ''Track''"
  "lower ''Track'' = ''track''"
  "lower ''Singer'' = ''singer''"
  by code_simp+

lemma plain_title_facts:
  "strip (dict_get (Some '' plain '') []) = ''plain''"
  "\<not> contains sep_dot ''plain''"
  "\<not> contains sep_quote_dash ''plain''"
  "\<not> contains '' - '' ''plain''"
  "\<not> contains '' by '' ''plain''"
  "lower ''plain'' = ''plain''"
  by code_simp+

lemma shouting_artist_facts:
  "strip (dict_get (Some ''Song - UNKNOWN ARTIST'') []) = ''Song - UNKNOWN ARTIST''"
  "\<not> contains sep_dot ''Song - UNKNOWN ARTIST''"
  "\<not> contains sep_quote_dash ''Song - UNKNOWN ARTIST''"
  "contains '' - '' ''Song - UNKNOWN ARTIST''"
  "split ''Song - UNKNOWN ARTIST'' '' - '' = [''Song'', ''UNKNOWN ARTIST'']"
  "lower ''Song'' = ''song''"
  "lower ''UNKNOWN ARTIST'' = ''unknown artist''"
  by code_simp+

lemma mixed_case_name_facts:
  "strip (dict_get (Some ''unKNOWN by Unknown'') []) = ''unKNOWN by Unknown''"
  "\<not> contains sep_dot ''unKNOWN by Unknown''"
  "\<not> contains sep_quote_dash ''unKNOWN by Unknown''"
  "\<not> contains '' - '' ''unKNOWN by Unknown''"
  "contains '' by '' ''unKNOWN by Unknown''"
  "split ''unKNOWN by Unknown'' '' by '' = [''unKNOWN'', ''Unknown'']"
  "lower ''unKNOWN'' = ''unknown''"
  "lower ''Unknown'' = ''unknown''"
  by code_simp+

lemma empty_artist_facts:
  "strip (dict_get (Some (''A'' @ sep_dot @ sep_dot @ ''B'')) []) = ''A'' @ sep_dot @ sep_dot @ ''B''"
  "contains sep_dot (''A'' @ sep_dot @ sep_dot @ ''B'')"
  "split (''A'' @ sep_dot @ sep_dot @ ''B'') sep_dot = [''A'', [], ''B'']"
  "lower ''A'' = ''a''"
  "lower [] = []"
  by code_simp+

text \<open>
  C4 (as the code has it). Let \<open>t\<close> be the display title stripped of surrounding
  whitespace (the empty string when the key is absent). When \<open>t\<close> is empty the name is
  \<open>Unknown\<close> and the artist \<open>Unknown Artist\<close>. Otherwise the separators are tried in the
  order: space, middle dot, space; double quote, space, dash, space; space, dash, space;
  \<open>by\<close> between spaces. The first one that occurs in \<open>t\<close> splits \<open>t\<close> at each of its
  occurrences: the name is the first piece (without leading and trailing double quotes
  for the second separator) and the artist is the second piece. When none occurs, the
  name is \<open>t\<close> and the artist is \<open>Unknown Artist\<close>. In every case a name whose lower-case
  form is \<open>unknown\<close> becomes \<open>Unknown\<close>, and an artist whose lower-case form is
  \<open>unknown artist\<close>, \<open>unknown\<close> or empty becomes \<open>Unknown Artist\<close>; any other name or
  artist is kept as it is. The search query is the name, a space and the artist.
\<close>

theorem oembed_title_parsing:
  assumes "t = strip (dict_get v [])" and "ti = track_info_of_oembed v"
  shows
   "let as_name = (\<lambda>n. if lower n = ''unknown'' then ''Unknown'' else n);
        as_artist = (\<lambda>a. if lower a = ''unknown artist'' \<or> lower a = ''unknown'' \<or> lower a = []
                          then ''Unknown Artist'' else a)
    in (t = [] \<longrightarrow> name ti = ''Unknown'' \<and> artists ti = [''Unknown Artist''])
     \<and> (contains sep_dot t \<longrightarrow>
          name ti = as_name (split t sep_dot ! 0)
          \<and> artists ti = [as_artist (split t sep_dot ! 1)])
     \<and> (\<not> contains sep_dot t \<and> contains sep_quote_dash t \<longrightarrow>
          name ti = as_name (strip_chars (\<lambda>c. c = CHR 0x22) (split t sep_quote_dash ! 0))
          \<and> artists ti = [as_artist (split t sep_quote_dash ! 1)])
     \<and> (\<not> contains sep_dot t \<and> \<not> contains sep_quote_dash t \<and> contains '' - '' t \<longrightarrow>
          name ti = as_name (split t '' - '' ! 0)
          \<and> artists ti = [as_artist (split t '' - '' ! 1)])
     \<and> (\<not> contains sep_dot t \<and> \<not> contains sep_quote_dash t \<and> \<not> contains '' - '' t
           \<and> contains '' by '' t \<longrightarrow>
          name ti = as_name (split t '' by '' ! 0)
          \<and> artists ti = [as_artist (split t '' by '' ! 1)])
     \<and> (t \<noteq> [] \<and> \<not> contains sep_dot t \<and> \<not> contains sep_quote_dash t \<and> \<not> contains '' - '' t
           \<and> \<not> contains '' by '' t \<longrightarrow>
          name ti = as_name t \<and> artists ti = [''Unknown Artist''])
     \<and> TrackInfo.search_query ti = name ti @ '' '' @ hd (artists ti)"
proof -
  have ti: "ti = \<lparr>name = clean_name (fst (parse_title t)),
                  artists = [clean_artist (snd (parse_title t))],
                  search_query = clean_name (fst (parse_title t)) @ '' '' @
                                 clean_artist (snd (parse_title t)),
                  album = None, duration = None\<rparr>"
    by (simp add: assms track_info_of_oembed_def Let_def)
  have ua: "clean_artist ''Unknown Artist'' = ''Unknown Artist''"
    by (simp add: clean_artist_def)
  have un: "clean_name ''Unknown'' = ''Unknown''"
    by (simp add: clean_name_def)
  have cn: "clean_name n = (if lower n = ''unknown'' then ''Unknown'' else n)" for n
    by (simp add: clean_name_def)
  have ca: "clean_artist a =
      (if lower a = ''unknown artist'' \<or> lower a = ''unknown'' \<or> lower a = []
       then ''Unknown Artist'' else a)" for a
    by (simp add: clean_artist_def)
  show ?thesis
  proof (cases "t = []")
    case True
    then show ?thesis
      by (simp add: ti parse_title_def ua un Let_def)
  next
    case False
    then show ?thesis
      unfolding Let_def cn [symmetric] ca [symmetric]
      by (simp add: ti parse_title_def split_pair_contains ua)
  qed
qed

theorem oembed_title_parsing_witness:
  "strip (dict_get (Some quoted_title) []) = quoted_title
   \<and> \<not> contains sep_dot quoted_title \<and> contains sep_quote_dash quoted_title
   \<and> name (track_info_of_oembed (Some quoted_title)) = ''Track''
   \<and> artists (track_info_of_oembed (Some quoted_title)) = [''Singer'']
   \<and> name (track_info_of_oembed (Some '' plain '')) = ''plain''
   \<and> artists (track_info_of_oembed (Some '' plain '')) = [''Unknown Artist'']
   \<and> name (track_info_of_oembed None) = ''Unknown''
   \<and> artists (track_info_of_oembed None) = [''Unknown Artist'']
   \<and> contains '' - '' ''Song - UNKNOWN ARTIST''
   \<and> name (track_info_of_oembed (Some ''Song - UNKNOWN ARTIST'')) = ''Song''
   \<and> artists (track_info_of_oembed (Some ''Song - UNKNOWN ARTIST'')) = [''Unknown Artist'']
   \<and> contains '' by '' ''unKNOWN by Unknown''
   \<and> name (track_info_of_oembed (Some ''unKNOWN by Unknown'')) = ''Unknown''
   \<and> artists (track_info_of_oembed (Some ''unKNOWN by Unknown'')) = [''Unknown Artist'']
   \<and> contains sep_dot (''A'' @ sep_dot @ sep_dot @ ''B'')
   \<and> name (track_info_of_oembed (Some (''A'' @ sep_dot @ sep_dot @ ''B''))) = ''A''
   \<and> artists (track_info_of_oembed (Some (''A'' @ sep_dot @ sep_dot @ ''B''))) = [''Unknown Artist'']"
proof -
  have 1: "name (track_info_of_oembed (Some quoted_title)) = ''Track''
     \<and> artists (track_info_of_oembed (Some quoted_title)) = [''Singer'']"
    using oembed_title_parsing [OF quoted_title_facts(1) [symmetric] refl] quoted_title_facts
    by (simp add: Let_def)
  have 2: "name (track_info_of_oembed (Some '' plain '')) = ''plain''
     \<and> artists (track_info_of_oembed (Some '' plain '')) = [''Unknown Artist'']"
    using oembed_title_parsing [OF plain_title_facts(1) [symmetric] refl] plain_title_facts
    by (simp add: Let_def)
  have e: "[] = strip (dict_get None [])"
    by (simp add: dict_get_def strip_def strip_chars_def)
  have 3: "name (track_info_of_oembed None) = ''Unknown''
     \<and> artists (track_info_of_oembed None) = [''Unknown Artist'']"
    using oembed_title_parsing [OF e refl] by (simp add: Let_def)
  have 4: "name (track_info_of_oembed (Some ''Song - UNKNOWN ARTIST'')) = ''Song''
     \<and> artists (track_info_of_oembed (Some ''Song - UNKNOWN ARTIST'')) = [''Unknown Artist'']"
    using oembed_title_parsing [OF shouting_artist_facts(1) [symmetric] refl]
      shouting_artist_facts
    by (simp add: Let_def)
  have 5: "name (track_info_of_oembed (Some ''unKNOWN by Unknown'')) = ''Unknown''
     \<and> artists (track_info_of_oembed (Some ''unKNOWN by Unknown'')) = [''Unknown Artist'']"
    using oembed_title_parsing [OF mixed_case_name_facts(1) [symmetric] refl]
      mixed_case_name_facts
    by (simp add: Let_def)
  have 6: "name (track_info_of_oembed (Some (''A'' @ sep_dot @ sep_dot @ ''B''))) = ''A''
     \<and> artists (track_info_of_oembed (Some (''A'' @ sep_dot @ sep_dot @ ''B''))) = [''Unknown Artist'']"
    using oembed_title_parsing [OF empty_artist_facts(1) [symmetric] refl]
      empty_artist_facts
    by (simp add: Let_def del: append.simps)
  from 1 2 3 4 5 6 quoted_title_facts(1-3) shouting_artist_facts(4) mixed_case_name_facts(5)
    empty_artist_facts(2)
  show ?thesis by (simp del: append.simps)
qed

text \<open>
  C4 as the specification words it fails on two kinds of title. With an empty title no
  separator occurs, yet the name is not the (empty) title but \<open>Unknown\<close>. With a separator
  that occurs twice, the text after the second occurrence is in neither the name nor the
  artist.
\<close>

theorem oembed_title_counterexample:
  "\<not> contains sep_dot [] \<and> \<not> contains sep_quote_dash [] \<and> \<not> contains '' - '' []
   \<and> \<not> contains '' by '' []
   \<and> name (track_info_of_oembed (Some [])) \<noteq> []
   \<and> name (track_info_of_oembed (Some [])) = ''Unknown''
   \<and> name (track_info_of_oembed (Some ''A - B - C'')) = ''A''
   \<and> artists (track_info_of_oembed (Some ''A - B - C'')) = [''B'']"
  by code_simp

section \<open>Traces of the engine and of the resolver\<close>

lemma trace_try_formats:
  "ev \<in> set (trace (try_formats y opts u dir fs w)) \<Longrightarrow>
     \<exists>f w'. ev = Download (opts\<lparr>format := f\<rparr>) u w'"
proof (induction fs arbitrary: w)
  case Nil
  then show ?case by simp
next
  case (Cons f fs)
  then show ?case
    by (auto simp: Let_def after_def split: option.splits if_splits)
qed

lemma trace_fallback_download:
  "trace (fallback_download y q dir w) =
     [Download (fallback_opts (path_join dir ''%(title)s.%(ext)s'')) (music_search_url q) w]"
  by (simp add: fallback_download_def Let_def)

lemma trace_download_audio:
  "ev \<in> set (trace (download_audio y q dir w)) \<Longrightarrow> \<exists>opts u w'. ev = Download opts u w'"
proof -
  assume a: "ev \<in> set (trace (download_audio y q dir w))"
  have inner: "ev \<in> set (trace (inner_download y q dir w)) \<Longrightarrow> \<exists>opts u w'. ev = Download opts u w'"
    unfolding inner_download_def Let_def using trace_try_formats by meson
  from a show ?thesis
    unfolding download_audio_def Let_def give_up_def
    by (auto simp: trace_fallback_download dest: inner
        split: sum.splits exn.splits if_splits)
qed



lemma handlers_Inr: "handlers x = Inr resp \<Longrightarrow> x = Inr resp"
  by (cases x rule: handlers.cases) auto

section \<open>Rejection of a request without a reference\<close>

text \<open>
  C8. A request in which none of the four URL fields and not the track identifier is set
  (to a non-empty string), and whose track name is \<open>Unknown\<close> or whose artist is
  \<open>Unknown Artist\<close> (nothing else was supplied in the metadata object or in the title and
  artist fields), is rejected with status 400. No temporary directory has been created
  then: the world is unchanged, \<open>temp_dir\<close> is still \<open>None\<close>, and there has been no effect
  at all (no directory, no HTTP request, no download).
\<close>

theorem rejected_before_workspace:
  assumes "\<not> truthy (spotify_url r)" and "\<not> truthy (song_url r)" and "\<not> truthy (url r)"
    and "\<not> truthy (trackUrl r)" and "\<not> truthy (trackId r)"
    and "n = (if truthy (metadata_get r ''name'') then the (metadata_get r ''name'')
              else if truthy (title r) then the (title r)
              else if truthy (track_name r) then the (track_name r) else ''Unknown'')"
    and "a = (if truthy (metadata_get r ''artist'') then the (metadata_get r ''artist'')
              else if truthy (artist r) then the (artist r)
              else if truthy (artist_name r) then the (artist_name r) else ''Unknown Artist'')"
    and "n = ''Unknown'' \<or> a = ''Unknown Artist''"
  shows "returned (download_song_frontend e r w) =
           Inl (HTTPException 400
             ''Either Spotify URL/Track ID or complete track metadata (title + artist) is required'')
       \<and> world_after (download_song_frontend e r w) = w
       \<and> temp_dir (download_song_frontend e r w) = None
       \<and> events (download_song_frontend e r w) = []"
proof -
  have u: "\<not> truthy (get_spotify_url r)"
    using assms(1-5) by (simp add: get_spotify_url_def py_or_def Let_def)
  have n: "get_track_name r = n"
    unfolding assms(6) get_track_name_def py_or_def or_default_def truthy_def
    by (auto split: option.splits)
  have a: "get_artist_name r = a"
    unfolding assms(7) get_artist_name_def py_or_def or_default_def truthy_def
    by (auto split: option.splits)
  have "\<not> has_metadata r"
    using assms(8) n a by (auto simp: has_metadata_def)
  with u show ?thesis
    by (simp add: download_song_frontend_def try_body_def Let_def)
qed

theorem rejected_before_workspace_witness:
  "returned (download_song_frontend env_ok default_request [''/tmp/other'' \<mapsto> []]) =
           Inl (HTTPException 400
             ''Either Spotify URL/Track ID or complete track metadata (title + artist) is required'')
   \<and> world_after (download_song_frontend env_ok default_request [''/tmp/other'' \<mapsto> []])
       = [''/tmp/other'' \<mapsto> []]
   \<and> events (download_song_frontend env_ok default_request [''/tmp/other'' \<mapsto> []]) = []
   \<and> returned (download_song_frontend env_ok
         (default_request\<lparr>title := Some ''Song'', trackId := Some []\<rparr>) Map.empty) =
           Inl (HTTPException 400
             ''Either Spotify URL/Track ID or complete track metadata (title + artist) is required'')"
  using rejected_before_workspace [of default_request _ _ env_ok "[''/tmp/other'' \<mapsto> []]", OF _ _ _ _ _ refl refl]
    rejected_before_workspace [of "default_request\<lparr>title := Some ''Song'', trackId := Some []\<rparr>"
      _ _ env_ok Map.empty, OF _ _ _ _ _ refl refl]
  by (simp add: default_request_def truthy_def metadata_get_def)

section \<open>Release of the temporary workspace\<close>




section \<open>The status of a download that times out\<close>

lemma download_audio_timeout:
  "secs (inner_download y q dir w) > 120 \<Longrightarrow>
     result (download_audio y q dir w) = failed ''Download timed out after 120 seconds''
     \<and> trace (download_audio y q dir w) = trace (inner_download y q dir w)"
  by (simp add: download_audio_def Let_def give_up_def)

text \<open>
  C7 does not hold of the code. When the download takes more than 120 seconds,
  \<open>download_audio\<close> catches the \<open>TimeoutError\<close> itself and returns a failed
  \<open>DownloadResult\<close>, which the endpoint reports with status 500, the status of every
  other download failure. The endpoint's own clause for \<open>TimeoutError\<close>, which gives
  status 504, is reached only by a \<open>TimeoutError\<close> raised outside the engine: below, by
  reading the file.
\<close>

theorem download_timeout_is_500:
  "secs (inner_download ydl_slow ''Song Artist'' tmp_path []) = 130
   \<and> returned (download_song_frontend (env_ok\<lparr>ydl := ydl_slow\<rparr>) one_artist Map.empty)
       = Inl (HTTPException 500 ''Download failed: Download timed out after 120 seconds'')
   \<and> returned (download_song_frontend (env_ok\<lparr>ydl := ydl_unavailable\<rparr>) one_artist Map.empty)
       = Inl (HTTPException 500
           ''Download failed: yt-dlp download error: ERROR: Video unavailable'')
   \<and> returned (download_song_frontend (env_ok\<lparr>read_fault := Some TimeoutError\<rparr>)
         one_artist Map.empty)
       = Inl (HTTPException 504 ''Download operation timed out'')"
  by code_simp

section \<open>Metadata supplied by the caller\<close>

lemma get_track_name_eq:
  "get_track_name r =
     (if truthy (metadata_get r ''name'') then the (metadata_get r ''name'')
      else if truthy (title r) then the (title r)
      else if truthy (track_name r) then the (track_name r) else ''Unknown'')"
  unfolding get_track_name_def py_or_def or_default_def truthy_def
  by (auto split: option.splits)

lemma get_artist_name_eq:
  "get_artist_name r =
     (if truthy (metadata_get r ''artist'') then the (metadata_get r ''artist'')
      else if truthy (artist r) then the (artist r)
      else if truthy (artist_name r) then the (artist_name r) else ''Unknown Artist'')"
  unfolding get_artist_name_def py_or_def or_default_def truthy_def
  by (auto split: option.splits)

lemma events_frontend:
  "set (events (download_song_frontend e r w))
     \<subseteq> set (events (try_body e r w)) \<union> range Rmtree"
  by (auto simp: download_song_frontend_def Let_def split: option.splits)

text \<open>
  C5. When the track name of the request is not \<open>Unknown\<close> and its artist is not
  \<open>Unknown Artist\<close>, the resolver returns a \<open>TrackInfo\<close> without any HTTP request, and the
  whole run of the endpoint makes none. The name is the caller's: the \<open>name\<close> of the
  metadata object, else the \<open>title\<close>, else the \<open>track_name\<close> (the first that is not empty).
  The artist is found the same way; when it has no comma it is the only artist, verbatim,
  and when it has one the artists are its pieces between the commas, in order, each
  stripped of surrounding whitespace (joined by commas, the pieces give the artist back).
\<close>

theorem provided_metadata_skips_resolution:
  assumes "n = get_track_name r" and "a = get_artist_name r"
    and "n \<noteq> ''Unknown''" and "a \<noteq> ''Unknown Artist''"
  shows "\<exists>ti. resolve e r u = (Inr ti, [])
     \<and> name ti = n
     \<and> n = (if truthy (metadata_get r ''name'') then the (metadata_get r ''name'')
            else if truthy (title r) then the (title r) else the (track_name r))
     \<and> a = (if truthy (metadata_get r ''artist'') then the (metadata_get r ''artist'')
            else if truthy (artist r) then the (artist r) else the (artist_name r))
     \<and> artists ti = (if CHR '','' \<in> set a then map strip (split a '','') else [a])
     \<and> join '','' (split a '','') = a
     \<and> (\<forall>x. HttpGet x \<notin> set (events (download_song_frontend e r w)))"
proof -
  have hm: "has_metadata r"
    using assms by (simp add: has_metadata_def)
  have res: "resolve e r u = (Inr (provided_track_info r), [])" for u
    using hm by (simp add: resolve_def)
  have n: "n = (if truthy (metadata_get r ''name'') then the (metadata_get r ''name'')
            else if truthy (title r) then the (title r) else the (track_name r))"
    using assms(1,3) unfolding get_track_name_eq by (simp split: if_splits)
  have a: "a = (if truthy (metadata_get r ''artist'') then the (metadata_get r ''artist'')
            else if truthy (artist r) then the (artist r) else the (artist_name r))"
    using assms(2,4) unfolding get_artist_name_eq by (simp split: if_splits)
  have no_http: "HttpGet x \<notin> set (events (try_body e r w))" for x
  proof -
    have "HttpGet x \<notin> set (trace (download_audio y q dir ws0))" for y q dir ws0
      using trace_download_audio by blast
    then show ?thesis
      by (auto simp: try_body_def Let_def res split: sum.splits)
  qed
  have "HttpGet x \<notin> set (events (download_song_frontend e r w))" for x
    using events_frontend [of e r w] no_http [of x] by auto
  with n a show ?thesis
    by (simp add: res provided_track_info_def assms(1,2) [symmetric] contains_single join_split)
qed

theorem provided_metadata_skips_resolution_witness:
  "get_track_name two_artists = ''Song'' \<and> get_artist_name two_artists = ''A, B''
   \<and> snd (resolve env_api two_artists ''https://open.spotify.com/track/abc123'') = []
   \<and> name (projr (fst (resolve env_api two_artists ''https://open.spotify.com/track/abc123'')))
       = ''Song''
   \<and> artists (projr (fst (resolve env_api two_artists ''https://open.spotify.com/track/abc123'')))
       = [''A'', ''B'']
   \<and> get_track_name one_artist = ''Song'' \<and> get_artist_name one_artist = ''Artist''
   \<and> artists (projr (fst (resolve env_api one_artist []))) = [''Artist'']
   \<and> HttpGet (api_endpoint @ quote ''https://open.spotify.com/track/abc123'')
        \<notin> set (events (download_song_frontend env_api two_artists Map.empty))"
proof -
  have g: "get_track_name two_artists = ''Song''" "get_artist_name two_artists = ''A, B''"
    "get_track_name one_artist = ''Song''" "get_artist_name one_artist = ''Artist''"
    by code_simp+
  have s: "map strip (split ''A, B'' '','') = [''A'', ''B'']"
    by code_simp
  have ne: "''Song'' \<noteq> ''Unknown''" "''A, B'' \<noteq> ''Unknown Artist''"
    "''Artist'' \<noteq> ''Unknown Artist''"
    by simp_all
  from provided_metadata_skips_resolution [OF g(1) [symmetric] g(2) [symmetric] ne(1) ne(2),
      of env_api "''https://open.spotify.com/track/abc123''" Map.empty]
  obtain t2 where t2:
    "resolve env_api two_artists ''https://open.spotify.com/track/abc123'' = (Inr t2, [])"
    "name t2 = ''Song''"
    "artists t2 = (if CHR '','' \<in> set ''A, B'' then map strip (split ''A, B'' '','') else [''A, B''])"
    "\<forall>x. HttpGet x \<notin> set (events (download_song_frontend env_api two_artists Map.empty))"
    by blast
  from provided_metadata_skips_resolution [OF g(3) [symmetric] g(4) [symmetric] ne(1) ne(3),
      of env_api "[]"]
  obtain t1 where t1:
    "resolve env_api one_artist [] = (Inr t1, [])"
    "artists t1 = (if CHR '','' \<in> set ''Artist'' then map strip (split ''Artist'' '','') else [''Artist''])"
    by blast
  from t2 t1 s g show ?thesis by simp
qed

section \<open>Album and duration\<close>

lemma resolve_album:
  assumes "resolve e r u = (Inr ti, t)"
  shows "(has_metadata r \<and> ti = provided_track_info r)
       \<or> (\<not> has_metadata r \<and> album ti = None \<and> duration ti = None)"
proof (cases "has_metadata r")
  case True
  with assms show ?thesis by (simp add: resolve_def)
next
  case False
  have api: "extract_from_api e u = (Some x, t1) \<Longrightarrow> album x = None \<and> duration x = None"
    for x t1
    by (auto simp: extract_from_api_def track_info_of_api_def Let_def
        split: api_reply.splits if_splits list.splits)
  have oe: "extract_from_oembed e u = (Some x, t2) \<Longrightarrow> album x = None \<and> duration x = None"
    for x t2
    by (auto simp: extract_from_oembed_def track_info_of_oembed_def Let_def
        split: option.splits if_splits oembed_reply.splits)
  from False assms api oe show ?thesis
    by (auto simp: resolve_def split: prod.splits option.splits)
qed

lemma map_of_make_headers:
  "map_of (make_headers e ti f c) ''X-Track-Album''
     = (if truthy (album ti) then album ti else None)"
  "map_of (make_headers e ti f c) ''X-Track-Duration''
     = (if truthy (duration ti) then duration ti else None)"
  by (auto simp: make_headers_def truthy_def split: option.splits)

lemma try_body_Inr:
  assumes "returned (try_body e r w) = Inr resp"
  shows "\<exists>ti t f c. resolve e r (dict_get (get_spotify_url r) []) = (Inr ti, t)
           \<and> headers resp = make_headers e ti f c"
proof -
  obtain res t where res: "resolve e r (dict_get (get_spotify_url r) []) = (res, t)"
    by (cases "resolve e r (dict_get (get_spotify_url r) [])") auto
  from assms res show ?thesis
    by (auto simp: try_body_def respond_def Let_def
        split: if_splits sum.splits option.splits intro!: exI)
qed

lemma returned_frontend:
  "returned (download_song_frontend e r w) = handlers (returned (try_body e r w))"
  by (simp add: download_song_frontend_def Let_def split: option.splits)

text \<open>
  C10. A \<open>TrackInfo\<close> that comes from the metadata API or from oEmbed has neither an
  album nor a duration. So when a response carries the header \<open>X-Track-Album\<close> (or
  \<open>X-Track-Duration\<close>), its value is the non-empty \<open>album\<close> (or \<open>duration\<close>) field of the
  request itself, and the request came with its own track name and artist.
\<close>

theorem album_only_from_request:
  "(\<forall>ti t. extract_from_api e u = (Some ti, t) \<longrightarrow> album ti = None \<and> duration ti = None)
   \<and> (\<forall>ti t. extract_from_oembed e u = (Some ti, t) \<longrightarrow> album ti = None \<and> duration ti = None)
   \<and> (\<forall>resp v. returned (download_song_frontend e r w) = Inr resp
         \<and> map_of (headers resp) ''X-Track-Album'' = Some v \<longrightarrow>
           DownloadRequest.album r = Some v \<and> v \<noteq> []
           \<and> get_track_name r \<noteq> ''Unknown'' \<and> get_artist_name r \<noteq> ''Unknown Artist'')
   \<and> (\<forall>resp v. returned (download_song_frontend e r w) = Inr resp
         \<and> map_of (headers resp) ''X-Track-Duration'' = Some v \<longrightarrow>
           DownloadRequest.duration r = Some v \<and> v \<noteq> []
           \<and> get_track_name r \<noteq> ''Unknown'' \<and> get_artist_name r \<noteq> ''Unknown Artist'')"
proof -
  have api: "extract_from_api e u = (Some ti, t) \<longrightarrow> album ti = None \<and> duration ti = None"
    for ti t
    by (auto simp: extract_from_api_def track_info_of_api_def Let_def
        split: api_reply.splits if_splits list.splits)
  have oe: "extract_from_oembed e u = (Some ti, t) \<longrightarrow> album ti = None \<and> duration ti = None"
    for ti t
    by (auto simp: extract_from_oembed_def track_info_of_oembed_def Let_def
        split: option.splits if_splits oembed_reply.splits)
  have hdr: "map_of (headers resp) ''X-Track-Album'' = Some v \<longrightarrow>
           DownloadRequest.album r = Some v \<and> v \<noteq> []
           \<and> get_track_name r \<noteq> ''Unknown'' \<and> get_artist_name r \<noteq> ''Unknown Artist''"
    "map_of (headers resp) ''X-Track-Duration'' = Some v \<longrightarrow>
           DownloadRequest.duration r = Some v \<and> v \<noteq> []
           \<and> get_track_name r \<noteq> ''Unknown'' \<and> get_artist_name r \<noteq> ''Unknown Artist''"
    if "returned (download_song_frontend e r w) = Inr resp" for resp v
  proof -
    from that have "returned (try_body e r w) = Inr resp"
      by (simp add: returned_frontend handlers_Inr)
    then obtain ti t f c
      where res: "resolve e r (dict_get (get_spotify_url r) []) = (Inr ti, t)"
        and h: "headers resp = make_headers e ti f c"
      using try_body_Inr by blast
    from resolve_album [OF res]
    show "map_of (headers resp) ''X-Track-Album'' = Some v \<longrightarrow>
           DownloadRequest.album r = Some v \<and> v \<noteq> []
           \<and> get_track_name r \<noteq> ''Unknown'' \<and> get_artist_name r \<noteq> ''Unknown Artist''"
      by (auto simp: h map_of_make_headers provided_track_info_def has_metadata_def truthy_def
          split: if_splits option.splits)
    from resolve_album [OF res]
    show "map_of (headers resp) ''X-Track-Duration'' = Some v \<longrightarrow>
           DownloadRequest.duration r = Some v \<and> v \<noteq> []
           \<and> get_track_name r \<noteq> ''Unknown'' \<and> get_artist_name r \<noteq> ''Unknown Artist''"
      by (auto simp: h map_of_make_headers provided_track_info_def has_metadata_def truthy_def
          split: if_splits option.splits)
  qed
  from api oe hdr show ?thesis by blast
qed

theorem album_only_from_request_witness:
  "extract_from_api env_api ''https://open.spotify.com/track/abc123''
     = (Some \<lparr>name = ''Track'', artists = [''Singer'', ''Guest''],
              search_query = ''Track Singer'', album = None, duration = None\<rparr>,
        [HttpGet (api_endpoint @ ''https%3A//open.spotify.com/track/abc123'')])
   \<and> fst (extract_from_oembed env_ok ''https://open.spotify.com/track/abc123?si=1'')
     = Some \<lparr>name = ''Track'', artists = [''Singer''], search_query = ''Track Singer'',
             album = None, duration = None\<rparr>
   \<and> map_of (headers (projr (returned (download_song_frontend env_ok with_album Map.empty))))
        ''X-Track-Album'' = Some ''LP''
   \<and> DownloadRequest.album with_album = Some ''LP''
   \<and> map_of (headers (projr (returned (download_song_frontend env_ok with_album Map.empty))))
        ''X-Track-Duration'' = Some ''3:05''
   \<and> DownloadRequest.album url_with_album = Some ''LP''
   \<and> map_of (headers (projr (returned (download_song_frontend env_api url_with_album Map.empty))))
        ''X-Track-Album'' = None"
proof -
  have 1: "extract_from_api env_api ''https://open.spotify.com/track/abc123''
     = (Some \<lparr>name = ''Track'', artists = [''Singer'', ''Guest''],
              search_query = ''Track Singer'', album = None, duration = None\<rparr>,
        [HttpGet (api_endpoint @ ''https%3A//open.spotify.com/track/abc123'')])"
    by code_simp
  have 2: "fst (extract_from_oembed env_ok ''https://open.spotify.com/track/abc123?si=1'')
     = Some \<lparr>name = ''Track'', artists = [''Singer''], search_query = ''Track Singer'',
             album = None, duration = None\<rparr>"
    by code_simp
  have 3: "map_of (headers (projr (returned (download_song_frontend env_ok with_album Map.empty))))
        ''X-Track-Album'' = Some ''LP''"
    "map_of (headers (projr (returned (download_song_frontend env_ok with_album Map.empty))))
        ''X-Track-Duration'' = Some ''3:05''"
    "DownloadRequest.album url_with_album = Some ''LP''"
    "map_of (headers (projr (returned (download_song_frontend env_api url_with_album Map.empty))))
        ''X-Track-Album'' = None"
    by code_simp+
  have 4: "\<not> isl (returned (download_song_frontend env_ok with_album Map.empty))"
    by code_simp
  define resp where "resp = projr (returned (download_song_frontend env_ok with_album Map.empty))"
  have resp: "returned (download_song_frontend env_ok with_album Map.empty) = Inr resp"
    using 4 unfolding resp_def
    by (cases "returned (download_song_frontend env_ok with_album Map.empty)") auto
  with 3(1) have "map_of (headers resp) ''X-Track-Album'' = Some ''LP''"
    by simp
  with album_only_from_request [of env_ok _ with_album Map.empty] resp
  have "DownloadRequest.album with_album = Some ''LP''"
    by blast
  with 1 2 3 show ?thesis by simp
qed

section \<open>The fallback pass\<close>









section \<open>The format preferences\<close>








end
